theory Spec2Isabelle
  imports Main "HOL-Library.Word"
begin

section \<open>Data model\<close>

text \<open>
  The program is the single Go file \<^verbatim>\<open>vsphere-graphite.go\<close>: \<^verbatim>\<open>Manage\<close> reads the
  configuration, initialises the backend, starts the tickers and the query goroutines and
  then runs one \<^verbatim>\<open>for { select { ... } }\<close> loop over four channels; \<^verbatim>\<open>main\<close> turns the
  result of \<^verbatim>\<open>Manage\<close> into output and an exit status.

  Go's \<^verbatim>\<open>error\<close> interface is modelled by its message; \<^verbatim>\<open>nil\<close> is \<open>None\<close> of
  \<open>error option\<close>.
\<close>

datatype error = Error string

text \<open>
  Modelled from the spec: \<^verbatim>\<open>backend.Point\<close> is declared in package \<^verbatim>\<open>backend\<close>, which is
  not among the sources. Section 3 of the specification gives its attributes: a metric
  name, a numeric value, a timestamp and key/value tags. \<^verbatim>\<open>backend.Point{}\<close>, the value
  written into a slot on reset (line 183), is Go's zero value: every field zero or empty.
\<close>

record Point =
  Name :: string
  Value :: int
  Timestamp :: int
  Tags :: "(string \<times> string) list"

definition Point_zero :: Point where
  "Point_zero = \<lparr>Name = [], Value = 0, Timestamp = 0, Tags = []\<rparr>"

text \<open>The signals registered with \<^verbatim>\<open>signal.Notify\<close> (line 148).\<close>

datatype signal = os_Interrupt | os_Kill | syscall_SIGTERM

text \<open>
  What one iteration of the \<^verbatim>\<open>select\<close> (lines 175 to 206) receives: a Point from
  \<^verbatim>\<open>metrics\<close>, a tick of \<^verbatim>\<open>ticker.C\<close>, a tick of \<^verbatim>\<open>memtimer.C\<close>, or a signal from
  \<^verbatim>\<open>interrupt\<close>. The tick of \<^verbatim>\<open>memtimer.C\<close> carries the value that
  \<^verbatim>\<open>runtime.ReadMemStats\<close> stores in \<^verbatim>\<open>memstats.Sys\<close> (a \<^verbatim>\<open>uint64\<close>) during that
  iteration, since that value is an input from the runtime. Which channel is ready when is
  decided by the scheduler and the goroutines; the model takes the sequence of receives as
  its input.
\<close>

datatype event =
    Metrics_recv Point
  | Ticker_C
  | Memtimer_C "64 word"
  | Interrupt_recv signal

text \<open>
  Lines written to \<^verbatim>\<open>stdlog\<close>, one constructor for each call site, holding the values
  that are formatted into the line.
\<close>

datatype log_entry =
    Starting_daemon string      \<comment> \<open>line 80, the argument of \<^verbatim>\<open>path.Base\<close>\<close>
  | Will_write_cpu_profiling string  \<comment> \<open>line 100, \<^verbatim>\<open>f.Name()\<close>\<close>
  | Retrieving_metrics          \<comment> \<open>lines 162 and 188\<close>
  | Sent_logs nat               \<comment> \<open>lines 181 and 200, the \<^verbatim>\<open>%d\<close>\<close>
  | Memory_usage "64 word"      \<comment> \<open>line 195, the argument of \<^verbatim>\<open>bytefmt.ByteSize\<close>\<close>
  | Got_signal signal           \<comment> \<open>line 197\<close>

text \<open>
  Everything the program does to the outside, in the order in which it happens.
  The type \<open>'v\<close> is \<^verbatim>\<open>vsphere.VCenter\<close>, declared in a package that is not among the
  sources and never inspected by this file.
  \<open>Call_SendMetrics\<close> holds the batch handed to \<^verbatim>\<open>config.Backend.SendMetrics\<close> and what
  the backend answered; \<open>Call_Backend_Init\<close> and \<open>Call_StartCPUProfile\<close> hold the
  answers of \<^verbatim>\<open>config.Backend.Init\<close> and \<^verbatim>\<open>pprof.StartCPUProfile\<close>.
\<close>

datatype 'v effect =
    Stdlog log_entry
  | Errlog_Error error              \<comment> \<open>line 218\<close>
  | Errlog_status string error      \<comment> \<open>line 224\<close>
  | Stdout string                   \<comment> \<open>line 227\<close>
  | Log_Fatal error                 \<comment> \<open>line 105\<close>
  | Call_StartCPUProfile "error option"
  | StopCPUProfile
  | VCenter_Init 'v
  | Call_Backend_Init "error option"
  | Backend_Disconnect
  | Signal_Notify "signal list"
  | Make_metrics_chan nat
  | NewTicker_ticker int
  | NewTicker_memtimer int
  | Ticker_Stop
  | Memtimer_Stop
  | Go_queryVCenter 'v
  | Call_SendMetrics "Point list" "error option"
  | Runtime_GC
  | Runtime_ReadMemStats

text \<open>
  How a piece of \<^verbatim>\<open>Manage\<close> ends: \<open>Continue\<close> (the \<^verbatim>\<open>select\<close> case falls through
  to the next iteration), \<open>Blocked\<close> (the \<^verbatim>\<open>select\<close> waits: the given receives are
  used up), \<open>Returned\<close> with the two results, \<open>Panicked\<close> (a run-time panic), and
  \<open>Fatal\<close> (\<^verbatim>\<open>log.Fatal\<close>, which ends the process with status 1).
\<close>

datatype outcome =
    Continue
  | Blocked
  | Returned string "error option"
  | Panicked
  | Fatal

text \<open>The local variables of \<^verbatim>\<open>Manage\<close> that the loop reads and writes.\<close>

record 'v loop_state =
  pointbuffer :: "Point list"
  bufferindex :: nat
  memstats_Sys :: "64 word"
  effects :: "'v effect list"

text \<open>
  The fields of \<^verbatim>\<open>config.Configuration\<close> that \<^verbatim>\<open>Manage\<close> itself reads. The
  entries of \<^verbatim>\<open>VCenters\<close> are pointers in the source; they are taken to be non-nil.
\<close>

record 'v Configuration =
  VCenters :: "'v list"
  Interval :: int
  FlushSize :: int
  Profiling :: bool

text \<open>
  Modelled from the spec: the backend (package \<^verbatim>\<open>backend\<close>) is not among the sources;
  section 6 of the specification gives \<^verbatim>\<open>init(loggers) \<rightarrow> error\<close> and
  \<^verbatim>\<open>sendMetrics(sequence of Point) \<rightarrow> error\<close>. Its answers are the fields
  \<open>Backend_Init\<close> and \<open>Backend_SendMetrics\<close> below. The call sites of
  \<^verbatim>\<open>SendMetrics\<close> (lines 180 and 199) are expression statements: whatever it returns
  is discarded.

  The record holds the outcomes of all calls that leave this file, for one run of the
  process: the command line, the service manager of package \<^verbatim>\<open>daemon\<close>, opening and
  decoding the configuration file, the profiling calls, the backend, and the sequence of
  receives of the loop.
\<close>

record 'v world =
  os_Args :: "string list"
  daemon_New :: "error option"
  service_Install :: "string \<times> error option"
  service_Remove :: "string \<times> error option"
  service_Start :: "string \<times> error option"
  service_Stop :: "string \<times> error option"
  service_Status :: "string \<times> error option"
  os_Open :: "error option"
  Decode :: "error + 'v Configuration"
  TempFile :: "error + string"
  pprof_StartCPUProfile :: "error option"
  Backend_Init :: "error option"
  Backend_SendMetrics :: "Point list \<Rightarrow> error option"
  receives :: "event list"

section \<open>The consuming loop\<close>

text \<open>
  Lines 182 to 184:
  \<^verbatim>\<open>for i := 0; i < len(pointbuffer); i++ { pointbuffer[i] = backend.Point{} }\<close>
\<close>

function reset_slots :: "nat \<Rightarrow> Point list \<Rightarrow> Point list" where
  "reset_slots i buf =
     (if i < length buf then reset_slots (i + 1) (buf[i := Point_zero]) else buf)"
  by pat_completeness auto
termination
  by (relation "measure (\<lambda>(i, buf). length buf - i)") auto

declare reset_slots.simps [simp del]

text \<open>
  One iteration of the \<^verbatim>\<open>select\<close>, lines 175 to 206. Writing
  \<^verbatim>\<open>pointbuffer[bufferindex]\<close> with the index out of range and slicing
  \<^verbatim>\<open>pointbuffer[:bufferindex]\<close> beyond the capacity panic in Go.
\<close>

fun select_case ::
  "(Point list \<Rightarrow> error option) \<Rightarrow> 'v list \<Rightarrow> 'v loop_state \<Rightarrow> event
     \<Rightarrow> 'v loop_state \<times> outcome" where
  "select_case send vcs s (Metrics_recv value) =
     (if bufferindex s < length (pointbuffer s) then
        let s1 = s\<lparr>pointbuffer := (pointbuffer s)[bufferindex s := value],
                   bufferindex := bufferindex s + 1\<rparr>
        in if bufferindex s1 = length (pointbuffer s1) then
             (s1\<lparr>pointbuffer := reset_slots 0 (pointbuffer s1),
                 bufferindex := 0,
                 effects := effects s1 @
                   [Call_SendMetrics (pointbuffer s1) (send (pointbuffer s1)),
                    Stdlog (Sent_logs (length (pointbuffer s1)))]\<rparr>, Continue)
           else (s1, Continue)
      else (s, Panicked))"
| "select_case send vcs s Ticker_C =
     (s\<lparr>effects := effects s @ Stdlog Retrieving_metrics # map Go_queryVCenter vcs\<rparr>,
      Continue)"
| "select_case send vcs s (Memtimer_C sys) =
     (s\<lparr>memstats_Sys := sys,
        effects := effects s @
          [Runtime_GC, Runtime_ReadMemStats, Stdlog (Memory_usage sys)]\<rparr>, Continue)"
| "select_case send vcs s (Interrupt_recv killSignal) =
     (let s1 = s\<lparr>effects := effects s @ [Stdlog (Got_signal killSignal)]\<rparr>
      in if bufferindex s1 > 0 then
           if bufferindex s1 \<le> length (pointbuffer s1) then
             (s1\<lparr>effects := effects s1 @
                   [Call_SendMetrics (take (bufferindex s1) (pointbuffer s1))
                      (send (take (bufferindex s1) (pointbuffer s1))),
                    Stdlog (Sent_logs (bufferindex s1))]\<rparr>,
              if killSignal = os_Interrupt
              then Returned ''Daemon was interrupted by system signal'' None
              else Returned ''Daemon was killed'' None)
           else (s1, Panicked)
         else
           (s1, if killSignal = os_Interrupt
                then Returned ''Daemon was interrupted by system signal'' None
                else Returned ''Daemon was killed'' None))"

text \<open>
  The \<^verbatim>\<open>for\<close> loop of lines 174 to 207 over a sequence of receives. The loop has no
  exit but the \<^verbatim>\<open>return\<close> statements of the signal case; when the receives are used up
  it is waiting in the \<^verbatim>\<open>select\<close>.
\<close>

fun consume ::
  "(Point list \<Rightarrow> error option) \<Rightarrow> 'v list \<Rightarrow> 'v loop_state \<Rightarrow> event list
     \<Rightarrow> 'v loop_state \<times> outcome" where
  "consume send vcs s [] = (s, Blocked)"
| "consume send vcs s (ev # evs) =
     (let r = select_case send vcs s ev
      in if snd r = Continue then consume send vcs (fst r) evs else r)"

section \<open>Manage and main\<close>

text \<open>Lines 62 to 78: a command on the command line is handed to the service manager.\<close>

definition usage :: string where
  "usage = ''Usage: vsphere-graphite install | remove | start | stop | status''"

definition Manage_command :: "'v world \<Rightarrow> string \<Rightarrow> string \<times> error option" where
  "Manage_command w command =
     (if command = ''install'' then service_Install w
      else if command = ''remove'' then service_Remove w
      else if command = ''start'' then service_Start w
      else if command = ''stop'' then service_Stop w
      else if command = ''status'' then service_Status w
      else (usage, None))"

text \<open>Lines 94 to 96: a flush size of 0 stands for 1000.\<close>

definition default_flush_size :: "'v Configuration \<Rightarrow> 'v Configuration" where
  "default_flush_size config =
     (if FlushSize config = 0 then config\<lparr>FlushSize := 1000\<rparr> else config)"

text \<open>
  Lines 98 to 108. When \<^verbatim>\<open>ioutil.TempFile\<close> fails, \<^verbatim>\<open>f\<close> is nil and \<^verbatim>\<open>f.Name()\<close> on
  line 100 dereferences it before the error is looked at. The result is the effects and
  either how \<^verbatim>\<open>Manage\<close> ends there or nothing.
\<close>

definition profiling :: "'v world \<Rightarrow> 'v Configuration \<Rightarrow> 'v effect list \<times> outcome option" where
  "profiling w config =
     (if Profiling config then
        (case TempFile w of
           Inl err \<Rightarrow> ([], Some Panicked)
         | Inr fname \<Rightarrow>
             (case pprof_StartCPUProfile w of
                Some err \<Rightarrow>
                  ([Stdlog (Will_write_cpu_profiling fname),
                    Call_StartCPUProfile (Some err), Log_Fatal err], Some Fatal)
              | None \<Rightarrow>
                  ([Stdlog (Will_write_cpu_profiling fname), Call_StartCPUProfile None],
                   None)))
      else ([], None))"

text \<open>
  The deferred calls, in the order in which they run: \<^verbatim>\<open>memtimer.Stop\<close> (line 159),
  \<^verbatim>\<open>ticker.Stop\<close> (155), \<^verbatim>\<open>config.Backend.Disconnect\<close> (142) and
  \<^verbatim>\<open>pprof.StopCPUProfile\<close> (107).
\<close>

definition deferred_profile :: "'v Configuration \<Rightarrow> 'v effect list" where
  "deferred_profile config = (if Profiling config then [StopCPUProfile] else [])"

definition deferred_backend :: "'v Configuration \<Rightarrow> 'v effect list" where
  "deferred_backend config = Backend_Disconnect # deferred_profile config"

definition deferred_all :: "'v Configuration \<Rightarrow> 'v effect list" where
  "deferred_all config = Memtimer_Stop # Ticker_Stop # deferred_backend config"

text \<open>
  Line 154: \<^verbatim>\<open>time.Second * time.Duration(config.Interval)\<close> is a product of
  \<^verbatim>\<open>int64\<close> values and wraps; \<^verbatim>\<open>time.NewTicker\<close> panics on a duration that is not
  positive.
\<close>

definition ticker_duration :: "int \<Rightarrow> int" where
  "ticker_duration interval = sint ((1000000000 :: 64 word) * word_of_int interval)"

text \<open>
  Lines 144 to 207, after the backend is initialised: the channels, the tickers, the
  first round of queries, the buffer and the loop. \<^verbatim>\<open>make\<close> panics on a negative
  size; an allocation of a non-negative size is taken to succeed.
\<close>

definition initial_state :: "nat \<Rightarrow> 'v effect list \<Rightarrow> 'v loop_state" where
  "initial_state n effs =
     \<lparr>pointbuffer = replicate n Point_zero, bufferindex = 0, memstats_Sys = 0,
      effects = effs\<rparr>"

definition pipeline ::
  "'v world \<Rightarrow> 'v Configuration \<Rightarrow> 'v effect list \<Rightarrow> 'v effect list \<times> outcome" where
  "pipeline w config effs0 =
     (let effs1 = effs0 @ [Signal_Notify [os_Interrupt, os_Kill, syscall_SIGTERM]]
      in if FlushSize config < 0 then (effs1 @ deferred_backend config, Panicked)
         else
           let effs2 = effs1 @ [Make_metrics_chan (nat (FlushSize config))]
           in if ticker_duration (Interval config) \<le> 0
              then (effs2 @ deferred_backend config, Panicked)
              else
                let effs3 = effs2 @
                      [NewTicker_ticker (ticker_duration (Interval config)),
                       NewTicker_memtimer (ticker_duration (Interval config)),
                       Stdlog Retrieving_metrics] @
                      map Go_queryVCenter (VCenters config);
                    r = consume (Backend_SendMetrics w) (VCenters config)
                          (initial_state (nat (FlushSize config)) effs3) (receives w)
                in if snd r = Blocked then (effects (fst r), Blocked)
                   else (effects (fst r) @ deferred_all config, snd r))"

text \<open>
  \<^verbatim>\<open>Manage\<close>, lines 57 to 208. Lines 111 to 132 (the loop that overrides fields of
  \<^verbatim>\<open>config.Backend\<close> from environment variables) assign only inside
  \<^verbatim>\<open>config.Backend\<close>, which this file hands to the backend and never reads; the
  backend's answers are those of the \<open>world\<close>.
\<close>

definition Manage :: "'v world \<Rightarrow> 'v effect list \<times> outcome" where
  "Manage w =
     (if length (os_Args w) > 1 then
        ([], Returned (fst (Manage_command w (os_Args w ! 1)))
                      (snd (Manage_command w (os_Args w ! 1))))
      else if os_Args w = [] then ([], Panicked)
      else
        let effs0 = [Stdlog (Starting_daemon (os_Args w ! 0))]
        in case os_Open w of
             Some err \<Rightarrow> (effs0, Returned ''Could not open configuration file'' (Some err))
           | None \<Rightarrow>
              (case Decode w of
                 Inl err \<Rightarrow>
                   (effs0, Returned ''Could not decode configuration file'' (Some err))
               | Inr config0 \<Rightarrow>
                   let config = default_flush_size config0;
                       p = profiling w config
                   in case snd p of
                        Some out \<Rightarrow> (effs0 @ fst p, out)
                      | None \<Rightarrow>
                          let effs1 = effs0 @ fst p @ map VCenter_Init (VCenters config)
                          in case Backend_Init w of
                               Some err \<Rightarrow>
                                 (effs1 @ [Call_Backend_Init (Some err)] @
                                    deferred_profile config,
                                  Returned ''Could not initialize backend'' (Some err))
                             | None \<Rightarrow>
                                 pipeline w config (effs1 @ [Call_Backend_Init None])))"

text \<open>
  \<^verbatim>\<open>main\<close>, lines 215 to 228: the effects of the process and its exit status
  (\<open>None\<close> while it is still running). \<^verbatim>\<open>os.Exit(1)\<close> and \<^verbatim>\<open>log.Fatal\<close> give status 1,
  a return from \<^verbatim>\<open>main\<close> gives 0, and a panic that nothing recovers gives 2.
\<close>

definition main :: "'v world \<Rightarrow> 'v effect list \<times> nat option" where
  "main w =
     (case daemon_New w of
        Some err \<Rightarrow> ([Errlog_Error err], Some 1)
      | None \<Rightarrow>
          (case snd (Manage w) of
             Returned status (Some err) \<Rightarrow>
               (fst (Manage w) @ [Errlog_status status err], Some 1)
           | Returned status None \<Rightarrow> (fst (Manage w) @ [Stdout status], Some 0)
           | Panicked \<Rightarrow> (fst (Manage w), Some 2)
           | Fatal \<Rightarrow> (fst (Manage w), Some 1)
           | _ \<Rightarrow> (fst (Manage w), None)))"

text \<open>The batches handed to \<^verbatim>\<open>SendMetrics\<close>, in the order of the calls.\<close>

fun dispatches :: "'v effect list \<Rightarrow> Point list list" where
  "dispatches [] = []"
| "dispatches (Call_SendMetrics batch r # effs) = batch # dispatches effs"
| "dispatches (e # effs) = dispatches effs"

text \<open>The Points among a sequence of receives, and whether a signal is among them.\<close>

fun points_of :: "event list \<Rightarrow> Point list" where
  "points_of [] = []"
| "points_of (Metrics_recv p # evs) = p # points_of evs"
| "points_of (ev # evs) = points_of evs"

fun is_signal :: "event \<Rightarrow> bool" where
  "is_signal (Interrupt_recv sg) = True"
| "is_signal ev = False"

text \<open>
  The invariant of the Point Buffer in the words of the specification (section 3): which
  batches one iteration hands to the backend, and where the cursor stands afterwards.
  A receive from \<^verbatim>\<open>metrics\<close> that makes the cursor reach the capacity flushes the whole
  buffer and resets the cursor to 0; a signal flushes the slice \<open>[0, cursor)\<close> when the
  cursor is positive; nothing else flushes or moves the cursor.
\<close>

definition spec_flush :: "'v loop_state \<Rightarrow> event \<Rightarrow> Point list list" where
  "spec_flush s ev =
     (case ev of
        Metrics_recv p \<Rightarrow>
          if bufferindex s + 1 = length (pointbuffer s)
          then [(pointbuffer s)[bufferindex s := p]] else []
      | Interrupt_recv sg \<Rightarrow>
          if 0 < bufferindex s then [take (bufferindex s) (pointbuffer s)] else []
      | _ \<Rightarrow> [])"

definition spec_cursor :: "'v loop_state \<Rightarrow> event \<Rightarrow> nat" where
  "spec_cursor s ev =
     (case ev of
        Metrics_recv p \<Rightarrow>
          if bufferindex s + 1 = length (pointbuffer s) then 0 else bufferindex s + 1
      | _ \<Rightarrow> bufferindex s)"

text \<open>The message that \<^verbatim>\<open>Manage\<close> returns for a signal (lines 202 to 205).\<close>

definition exit_message :: "signal \<Rightarrow> string" where
  "exit_message sg =
     (if sg = os_Interrupt then ''Daemon was interrupted by system signal''
      else ''Daemon was killed'')"





section \<open>Properties\<close>

subsection \<open>The reset loop and single iterations\<close>

lemma reset_slots_from:
  "i \<le> length buf \<Longrightarrow> reset_slots i buf = take i buf @ replicate (length buf - i) Point_zero"
proof (induction i buf rule: reset_slots.induct)
  case (1 i buf)
  show ?case
  proof (cases "i < length buf")
    case True
    have "reset_slots i buf = reset_slots (i + 1) (buf[i := Point_zero])"
      using True by (subst reset_slots.simps) simp
    also have "\<dots> = take (i + 1) (buf[i := Point_zero]) @ replicate (length buf - (i + 1)) Point_zero"
      using "1.IH" [OF True] True by simp
    also have "take (i + 1) (buf[i := Point_zero]) = take i buf @ [Point_zero]"
      using True by (simp add: take_Suc_conv_app_nth)
    also have "(take i buf @ [Point_zero]) @ replicate (length buf - (i + 1)) Point_zero
               = take i buf @ replicate (length buf - i) Point_zero"
      using True by (simp add: Suc_diff_Suc flip: replicate_Suc)
    finally show ?thesis .
  next
    case False
    with "1.prems" show ?thesis by (subst reset_slots.simps) simp
  qed
qed

lemma reset_slots_all: "reset_slots 0 buf = replicate (length buf) Point_zero"
  using reset_slots_from [of 0 buf] by simp

lemma dispatches_append: "dispatches (xs @ ys) = dispatches xs @ dispatches ys"
  by (induction xs rule: dispatches.induct) simp_all

lemma dispatches_queries: "dispatches (map Go_queryVCenter vcs) = []"
  by (induction vcs) simp_all

lemma select_metric_below:
  "bufferindex s + 1 < length (pointbuffer s) \<Longrightarrow>
   select_case send vcs s (Metrics_recv p) =
     (s\<lparr>pointbuffer := (pointbuffer s)[bufferindex s := p], bufferindex := bufferindex s + 1\<rparr>,
      Continue)"
  by (simp add: Let_def)

lemma select_metric_full:
  "bufferindex s + 1 = length (pointbuffer s) \<Longrightarrow>
   select_case send vcs s (Metrics_recv p) =
     (s\<lparr>pointbuffer := replicate (length (pointbuffer s)) Point_zero,
        bufferindex := 0,
        effects := effects s @
          [Call_SendMetrics ((pointbuffer s)[bufferindex s := p])
             (send ((pointbuffer s)[bufferindex s := p])),
           Stdlog (Sent_logs (length (pointbuffer s)))]\<rparr>, Continue)"
  by (simp add: Let_def reset_slots_all)

lemma select_signal:
  "bufferindex s \<le> length (pointbuffer s) \<Longrightarrow>
   select_case send vcs s (Interrupt_recv sg) =
     (s\<lparr>effects := effects s @ Stdlog (Got_signal sg) #
          (if 0 < bufferindex s
           then [Call_SendMetrics (take (bufferindex s) (pointbuffer s))
                   (send (take (bufferindex s) (pointbuffer s))),
                 Stdlog (Sent_logs (bufferindex s))]
           else [])\<rparr>,
      if sg = os_Interrupt then Returned ''Daemon was interrupted by system signal'' None
      else Returned ''Daemon was killed'' None)"
  by (simp add: Let_def)

lemma select_case_not_Blocked: "snd (select_case send vcs s ev) \<noteq> Blocked"
  by (cases ev) (simp_all add: Let_def)

lemma select_case_inv:
  assumes "bufferindex s < length (pointbuffer s)"
  shows "length (pointbuffer (fst (select_case send vcs s ev))) = length (pointbuffer s)"
    and "bufferindex (fst (select_case send vcs s ev)) < length (pointbuffer s)"
    and "snd (select_case send vcs s ev) \<noteq> Panicked"
    and "snd (select_case send vcs s ev) \<noteq> Blocked"
proof -
  show "length (pointbuffer (fst (select_case send vcs s ev))) = length (pointbuffer s)"
    using assms by (cases ev) (simp_all add: Let_def reset_slots_all)
  show "bufferindex (fst (select_case send vcs s ev)) < length (pointbuffer s)"
    using assms by (cases ev) (auto simp add: Let_def)
  show "snd (select_case send vcs s ev) \<noteq> Panicked"
    using assms by (cases ev) (simp_all add: Let_def)
  show "snd (select_case send vcs s ev) \<noteq> Blocked"
    by (cases ev) (simp_all add: Let_def)
qed

lemma consume_inv:
  assumes "bufferindex s < length (pointbuffer s)"
  shows "length (pointbuffer (fst (consume send vcs s evs))) = length (pointbuffer s)
       \<and> bufferindex (fst (consume send vcs s evs)) < length (pointbuffer s)
       \<and> snd (consume send vcs s evs) \<noteq> Panicked
       \<and> snd (consume send vcs s evs) \<noteq> Continue"
  using assms
proof (induction evs arbitrary: s)
  case Nil
  then show ?case by simp
next
  case (Cons ev evs)
  note inv = select_case_inv [OF Cons.prems, of send vcs ev]
  show ?case
  proof (cases "snd (select_case send vcs s ev) = Continue")
    case True
    have "bufferindex (fst (select_case send vcs s ev))
            < length (pointbuffer (fst (select_case send vcs s ev)))"
      using inv by simp
    from Cons.IH [OF this] True inv show ?thesis by (simp add: Let_def)
  next
    case False
    with inv show ?thesis by (simp add: Let_def)
  qed
qed

lemma consume_append:
  "snd (consume send vcs s evs) = Blocked \<Longrightarrow>
   consume send vcs s (evs @ evs') = consume send vcs (fst (consume send vcs s evs)) evs'"
proof (induction evs arbitrary: s)
  case Nil
  then show ?case by simp
next
  case (Cons ev evs)
  show ?case
  proof (cases "snd (select_case send vcs s ev) = Continue")
    case True
    with Cons show ?thesis by (simp add: Let_def)
  next
    case False
    moreover have "snd (select_case send vcs s ev) \<noteq> Blocked"
      by (rule select_case_not_Blocked)
    ultimately show ?thesis using Cons.prems by (simp add: Let_def)
  qed
qed

subsection \<open>Receives without a signal\<close>

lemma consume_below_capacity:
  assumes "\<forall>ev \<in> set evs. \<not> is_signal ev"
    and "bufferindex s + length (points_of evs) < length (pointbuffer s)"
  shows "snd (consume send vcs s evs) = Blocked
       \<and> bufferindex (fst (consume send vcs s evs)) = bufferindex s + length (points_of evs)
       \<and> pointbuffer (fst (consume send vcs s evs)) =
           take (bufferindex s) (pointbuffer s) @ points_of evs @
           drop (bufferindex s + length (points_of evs)) (pointbuffer s)
       \<and> dispatches (effects (fst (consume send vcs s evs))) = dispatches (effects s)"
  using assms
proof (induction evs arbitrary: s)
  case Nil
  then show ?case by simp
next
  case (Cons ev evs)
  show ?case
  proof (cases ev)
    case (Metrics_recv p)
    let ?s1 = "s\<lparr>pointbuffer := (pointbuffer s)[bufferindex s := p],
                  bufferindex := bufferindex s + 1\<rparr>"
    have below: "bufferindex s + 1 < length (pointbuffer s)"
      using Cons.prems Metrics_recv by simp
    have step: "select_case send vcs s ev = (?s1, Continue)"
      using select_metric_below [OF below] Metrics_recv by simp
    have "\<forall>ev \<in> set evs. \<not> is_signal ev"
      using Cons.prems by simp
    moreover have "bufferindex ?s1 + length (points_of evs) < length (pointbuffer ?s1)"
      using Cons.prems Metrics_recv by simp
    ultimately have IH: "snd (consume send vcs ?s1 evs) = Blocked
       \<and> bufferindex (fst (consume send vcs ?s1 evs)) = bufferindex ?s1 + length (points_of evs)
       \<and> pointbuffer (fst (consume send vcs ?s1 evs)) =
           take (bufferindex ?s1) (pointbuffer ?s1) @ points_of evs @
           drop (bufferindex ?s1 + length (points_of evs)) (pointbuffer ?s1)
       \<and> dispatches (effects (fst (consume send vcs ?s1 evs))) = dispatches (effects ?s1)"
      by (rule Cons.IH)
    have t: "take (bufferindex s + 1) ((pointbuffer s)[bufferindex s := p])
               = take (bufferindex s) (pointbuffer s) @ [p]"
      using below by (simp add: take_Suc_conv_app_nth)
    have d: "drop (bufferindex s + 1 + length (points_of evs)) ((pointbuffer s)[bufferindex s := p])
               = drop (bufferindex s + 1 + length (points_of evs)) (pointbuffer s)"
      by simp
    show ?thesis
      using IH t d step Metrics_recv by (simp add: Let_def)
  next
    case Ticker_C
    let ?s1 = "s\<lparr>effects := effects s @ Stdlog Retrieving_metrics # map Go_queryVCenter vcs\<rparr>"
    have "snd (consume send vcs ?s1 evs) = Blocked
       \<and> bufferindex (fst (consume send vcs ?s1 evs)) = bufferindex ?s1 + length (points_of evs)
       \<and> pointbuffer (fst (consume send vcs ?s1 evs)) =
           take (bufferindex ?s1) (pointbuffer ?s1) @ points_of evs @
           drop (bufferindex ?s1 + length (points_of evs)) (pointbuffer ?s1)
       \<and> dispatches (effects (fst (consume send vcs ?s1 evs))) = dispatches (effects ?s1)"
      using Cons.prems Ticker_C by (intro Cons.IH) simp_all
    then show ?thesis
      using Ticker_C by (simp add: dispatches_append dispatches_queries)
  next
    case (Memtimer_C sys)
    let ?s1 = "s\<lparr>memstats_Sys := sys, effects := effects s @
          [Runtime_GC, Runtime_ReadMemStats, Stdlog (Memory_usage sys)]\<rparr>"
    have "snd (consume send vcs ?s1 evs) = Blocked
       \<and> bufferindex (fst (consume send vcs ?s1 evs)) = bufferindex ?s1 + length (points_of evs)
       \<and> pointbuffer (fst (consume send vcs ?s1 evs)) =
           take (bufferindex ?s1) (pointbuffer ?s1) @ points_of evs @
           drop (bufferindex ?s1 + length (points_of evs)) (pointbuffer ?s1)
       \<and> dispatches (effects (fst (consume send vcs ?s1 evs))) = dispatches (effects ?s1)"
      using Cons.prems Memtimer_C by (intro Cons.IH) simp_all
    then show ?thesis
      using Memtimer_C by (simp add: dispatches_append)
  next
    case (Interrupt_recv sg)
    with Cons.prems show ?thesis by simp
  qed
qed

lemma consume_fill:
  assumes "\<forall>ev \<in> set evs. \<not> is_signal ev"
    and "bufferindex s + length (points_of evs) = length (pointbuffer s)"
    and "points_of evs \<noteq> []"
  shows "snd (consume send vcs s evs) = Blocked
       \<and> bufferindex (fst (consume send vcs s evs)) = 0
       \<and> pointbuffer (fst (consume send vcs s evs)) =
           replicate (length (pointbuffer s)) Point_zero
       \<and> dispatches (effects (fst (consume send vcs s evs))) =
           dispatches (effects s) @ [take (bufferindex s) (pointbuffer s) @ points_of evs]"
  using assms
proof (induction evs arbitrary: s)
  case Nil
  then show ?case by simp
next
  case (Cons ev evs)
  have nosig: "\<forall>ev \<in> set evs. \<not> is_signal ev"
    using Cons.prems by simp
  show ?case
  proof (cases ev)
    case (Metrics_recv p)
    show ?thesis
    proof (cases "points_of evs = []")
      case True
      let ?s1 = "s\<lparr>pointbuffer := replicate (length (pointbuffer s)) Point_zero,
        bufferindex := 0,
        effects := effects s @
          [Call_SendMetrics ((pointbuffer s)[bufferindex s := p])
             (send ((pointbuffer s)[bufferindex s := p])),
           Stdlog (Sent_logs (length (pointbuffer s)))]\<rparr>"
      have full: "bufferindex s + 1 = length (pointbuffer s)"
        using Cons.prems True Metrics_recv by simp
      have step: "select_case send vcs s ev = (?s1, Continue)"
        using select_metric_full [OF full] Metrics_recv by simp
      have "bufferindex ?s1 + length (points_of evs) < length (pointbuffer ?s1)"
        using True full by auto
      from consume_below_capacity [OF nosig this, of send vcs]
      have rest: "snd (consume send vcs ?s1 evs) = Blocked"
        "bufferindex (fst (consume send vcs ?s1 evs)) = 0"
        "pointbuffer (fst (consume send vcs ?s1 evs)) = replicate (length (pointbuffer s)) Point_zero"
        "dispatches (effects (fst (consume send vcs ?s1 evs))) = dispatches (effects ?s1)"
        using True by simp_all
      have batch: "(pointbuffer s)[bufferindex s := p] = take (bufferindex s) (pointbuffer s) @ [p]"
        using full by (simp add: upd_conv_take_nth_drop)
      show ?thesis
        using rest step True Metrics_recv batch by (simp add: Let_def dispatches_append)
    next
      case False
      let ?s1 = "s\<lparr>pointbuffer := (pointbuffer s)[bufferindex s := p],
                  bufferindex := bufferindex s + 1\<rparr>"
      have below: "bufferindex s + 1 < length (pointbuffer s)"
        using Cons.prems Metrics_recv False by (cases "points_of evs") simp_all
      have step: "select_case send vcs s ev = (?s1, Continue)"
        using select_metric_below [OF below] Metrics_recv by simp
      have "bufferindex ?s1 + length (points_of evs) = length (pointbuffer ?s1)"
        using Cons.prems Metrics_recv by simp
      from Cons.IH [OF nosig this False]
      have IH: "snd (consume send vcs ?s1 evs) = Blocked"
        "bufferindex (fst (consume send vcs ?s1 evs)) = 0"
        "pointbuffer (fst (consume send vcs ?s1 evs)) = replicate (length (pointbuffer s)) Point_zero"
        "dispatches (effects (fst (consume send vcs ?s1 evs))) =
           dispatches (effects s) @ [take (bufferindex s + 1) ((pointbuffer s)[bufferindex s := p]) @ points_of evs]"
        by simp_all
      have t: "take (bufferindex s + 1) ((pointbuffer s)[bufferindex s := p])
               = take (bufferindex s) (pointbuffer s) @ [p]"
        using below by (simp add: take_Suc_conv_app_nth)
      show ?thesis
        using IH t step Metrics_recv by (simp add: Let_def)
    qed
  next
    case Ticker_C
    let ?s1 = "s\<lparr>effects := effects s @ Stdlog Retrieving_metrics # map Go_queryVCenter vcs\<rparr>"
    have "bufferindex ?s1 + length (points_of evs) = length (pointbuffer ?s1)"
      and "points_of evs \<noteq> []"
      using Cons.prems Ticker_C by simp_all
    from Cons.IH [OF nosig this] show ?thesis
      using Ticker_C by (simp add: dispatches_append dispatches_queries)
  next
    case (Memtimer_C sys)
    let ?s1 = "s\<lparr>memstats_Sys := sys, effects := effects s @
          [Runtime_GC, Runtime_ReadMemStats, Stdlog (Memory_usage sys)]\<rparr>"
    have "bufferindex ?s1 + length (points_of evs) = length (pointbuffer ?s1)"
      and "points_of evs \<noteq> []"
      using Cons.prems Memtimer_C by simp_all
    from Cons.IH [OF nosig this] show ?thesis
      using Memtimer_C by (simp add: dispatches_append)
  next
    case (Interrupt_recv sg)
    with Cons.prems show ?thesis by simp
  qed
qed

subsection \<open>The buffer, the flush and the shutdown\<close>

lemma consume_no_signal_state:
  assumes "\<forall>ev \<in> set evs. \<not> is_signal ev"
    and "bufferindex s + length (points_of evs) < length (pointbuffer s)"
  shows "snd (consume send vcs s evs) = Blocked"
    and "bufferindex (fst (consume send vcs s evs)) = bufferindex s + length (points_of evs)"
    and "pointbuffer (fst (consume send vcs s evs)) =
           take (bufferindex s) (pointbuffer s) @ points_of evs @
           drop (bufferindex s + length (points_of evs)) (pointbuffer s)"
    and "dispatches (effects (fst (consume send vcs s evs))) = dispatches (effects s)"
  using consume_below_capacity [OF assms, of send vcs] by simp_all

text \<open>
  Claim C4. Starting with the cursor at 0, a sequence of receives without a signal that
  holds fewer Points than the buffer has slots (ticks of either timer may come in
  between) leaves the loop waiting with no call of \<^verbatim>\<open>SendMetrics\<close> made, the cursor
  at the number of Points received, and the Points in the first slots of the buffer in the
  order of arrival.
\<close>

theorem below_capacity_no_flush:
  assumes "\<forall>ev \<in> set evs. \<not> is_signal ev"
    and "bufferindex s = 0"
    and "length (points_of evs) < length (pointbuffer s)"
  shows "snd (consume send vcs s evs) = Blocked
       \<and> dispatches (effects (fst (consume send vcs s evs))) = dispatches (effects s)
       \<and> bufferindex (fst (consume send vcs s evs)) = length (points_of evs)
       \<and> take (length (points_of evs)) (pointbuffer (fst (consume send vcs s evs)))
           = points_of evs
       \<and> (\<forall>i < length (points_of evs).
             pointbuffer (fst (consume send vcs s evs)) ! i = points_of evs ! i)"
proof -
  have below: "bufferindex s + length (points_of evs) < length (pointbuffer s)"
    using assms(2,3) by simp
  note st = consume_no_signal_state [OF assms(1) below, of send vcs]
  have buf: "pointbuffer (fst (consume send vcs s evs)) =
      points_of evs @ drop (length (points_of evs)) (pointbuffer s)"
    using st(3) assms(2) by simp
  have nth: "\<forall>i < length (points_of evs).
      pointbuffer (fst (consume send vcs s evs)) ! i = points_of evs ! i"
    by (simp add: buf nth_append)
  show ?thesis
    using st(1,2,4) assms(2) nth by (simp add: buf)
qed


theorem below_capacity_no_flush_witness:
  "snd (consume (\<lambda>b. None) [''vc'']
         (initial_state 3 [])
         [Metrics_recv (Point_zero\<lparr>Value := 1\<rparr>), Ticker_C,
          Metrics_recv (Point_zero\<lparr>Value := 2\<rparr>), Memtimer_C 7]) = Blocked
   \<and> dispatches (effects (fst (consume (\<lambda>b. None) [''vc'']
         (initial_state 3 [])
         [Metrics_recv (Point_zero\<lparr>Value := 1\<rparr>), Ticker_C,
          Metrics_recv (Point_zero\<lparr>Value := 2\<rparr>), Memtimer_C 7]))) = []
   \<and> take 2 (pointbuffer (fst (consume (\<lambda>b. None) [''vc'']
         (initial_state 3 [])
         [Metrics_recv (Point_zero\<lparr>Value := 1\<rparr>), Ticker_C,
          Metrics_recv (Point_zero\<lparr>Value := 2\<rparr>), Memtimer_C 7])))
       = [Point_zero\<lparr>Value := 1\<rparr>, Point_zero\<lparr>Value := 2\<rparr>]"
  using below_capacity_no_flush [of
      "[Metrics_recv (Point_zero\<lparr>Value := 1\<rparr>), Ticker_C,
        Metrics_recv (Point_zero\<lparr>Value := 2\<rparr>), Memtimer_C 7]"
      "initial_state 3 []" "\<lambda>b. None" "[''vc'']"]
  by (simp add: initial_state_def eval_nat_numeral)

text \<open>
  Claim C1. Starting with the cursor at 0, a sequence of receives without a signal that
  holds exactly as many Points as the buffer has slots makes exactly one call of
  \<^verbatim>\<open>SendMetrics\<close>, with all these Points in the order of arrival, and leaves the
  cursor at 0.
\<close>

theorem flush_at_capacity:
  assumes "\<forall>ev \<in> set evs. \<not> is_signal ev"
    and "bufferindex s = 0"
    and "length (points_of evs) = length (pointbuffer s)"
    and "0 < length (pointbuffer s)"
  shows "snd (consume send vcs s evs) = Blocked
       \<and> dispatches (effects (fst (consume send vcs s evs)))
           = dispatches (effects s) @ [points_of evs]
       \<and> bufferindex (fst (consume send vcs s evs)) = 0"
proof -
  have full: "bufferindex s + length (points_of evs) = length (pointbuffer s)"
    using assms(2,3) by simp
  have ne: "points_of evs \<noteq> []"
    using assms(3,4) by auto
  from consume_fill [OF assms(1) full ne, of send vcs] assms(2)
  show ?thesis by simp
qed

theorem flush_at_capacity_witness:
  "dispatches (effects (fst (consume (\<lambda>b. None) [''vc'']
         (initial_state 2 [])
         [Metrics_recv (Point_zero\<lparr>Value := 1\<rparr>), Ticker_C,
          Metrics_recv (Point_zero\<lparr>Value := 2\<rparr>)])))
     = [[Point_zero\<lparr>Value := 1\<rparr>, Point_zero\<lparr>Value := 2\<rparr>]]
   \<and> bufferindex (fst (consume (\<lambda>b. None) [''vc'']
         (initial_state 2 [])
         [Metrics_recv (Point_zero\<lparr>Value := 1\<rparr>), Ticker_C,
          Metrics_recv (Point_zero\<lparr>Value := 2\<rparr>)])) = 0"
  using flush_at_capacity [of
      "[Metrics_recv (Point_zero\<lparr>Value := 1\<rparr>), Ticker_C,
        Metrics_recv (Point_zero\<lparr>Value := 2\<rparr>)]"
      "initial_state 2 []" "\<lambda>b. None" "[''vc'']"]
  by (simp add: initial_state_def)

text \<open>
  Claim C9. The case of \<^verbatim>\<open>memtimer.C\<close> leaves the buffer and the cursor as they are
  and goes on to the next iteration; all it does is collect garbage, read the memory
  statistics and write one line with \<^verbatim>\<open>memstats.Sys\<close> to the log. How
  \<^verbatim>\<open>bytefmt.ByteSize\<close> renders the number is outside this file.
\<close>

theorem memtimer_frame:
  "pointbuffer (fst (select_case send vcs s (Memtimer_C sys))) = pointbuffer s
   \<and> bufferindex (fst (select_case send vcs s (Memtimer_C sys))) = bufferindex s
   \<and> snd (select_case send vcs s (Memtimer_C sys)) = Continue
   \<and> effects (fst (select_case send vcs s (Memtimer_C sys))) =
       effects s @ [Runtime_GC, Runtime_ReadMemStats, Stdlog (Memory_usage sys)]
   \<and> consume send vcs s (Memtimer_C sys # evs) =
       consume send vcs (fst (select_case send vcs s (Memtimer_C sys))) evs"
  by simp

text \<open>
  Claim C5. When a receive from \<^verbatim>\<open>metrics\<close> fills the last free slot, the whole buffer
  is handed to \<^verbatim>\<open>SendMetrics\<close>, and afterwards every slot holds the zero value of
  \<^verbatim>\<open>Point\<close>; ticks of the timers that follow before the next Point do not change
  that.
\<close>

theorem slots_zero_after_full_flush:
  assumes "bufferindex s + 1 = length (pointbuffer s)"
    and "\<forall>ev \<in> set evs. \<not> is_signal ev"
    and "points_of evs = []"
  shows "dispatches (effects (fst (consume send vcs s (Metrics_recv p # evs))))
           = dispatches (effects s) @ [(pointbuffer s)[bufferindex s := p]]
       \<and> length (pointbuffer (fst (consume send vcs s (Metrics_recv p # evs))))
           = length (pointbuffer s)
       \<and> (\<forall>i < length (pointbuffer s).
             pointbuffer (fst (consume send vcs s (Metrics_recv p # evs))) ! i = Point_zero)
       \<and> bufferindex (fst (consume send vcs s (Metrics_recv p # evs))) = 0"
proof -
  let ?s1 = "s\<lparr>pointbuffer := replicate (length (pointbuffer s)) Point_zero,
        bufferindex := 0,
        effects := effects s @
          [Call_SendMetrics ((pointbuffer s)[bufferindex s := p])
             (send ((pointbuffer s)[bufferindex s := p])),
           Stdlog (Sent_logs (length (pointbuffer s)))]\<rparr>"
  have step: "consume send vcs s (Metrics_recv p # evs) = consume send vcs ?s1 evs"
    using select_metric_full [OF assms(1), of send vcs p] by (simp add: Let_def)
  have "bufferindex ?s1 + length (points_of evs) < length (pointbuffer ?s1)"
    using assms(1,3) by auto
  note st = consume_no_signal_state [OF assms(2) this, of send vcs]
  have buf: "pointbuffer (fst (consume send vcs ?s1 evs))
               = replicate (length (pointbuffer s)) Point_zero"
    using st(3) assms(3) by simp
  have disp: "dispatches (effects (fst (consume send vcs ?s1 evs)))
               = dispatches (effects s) @ [(pointbuffer s)[bufferindex s := p]]"
    using st(4) by (simp add: dispatches_append)
  have cur: "bufferindex (fst (consume send vcs ?s1 evs)) = 0"
    using st(2) assms(3) by simp
  show ?thesis
    unfolding step using buf disp cur by simp
qed

theorem slots_zero_after_full_flush_witness:
  "pointbuffer (fst (consume (\<lambda>b. None) [''vc'']
       \<lparr>pointbuffer = [Point_zero\<lparr>Value := 1\<rparr>, Point_zero], bufferindex = 1,
        memstats_Sys = 0, effects = []\<rparr>
       [Metrics_recv (Point_zero\<lparr>Value := 2\<rparr>), Ticker_C])) ! 0 = Point_zero
   \<and> pointbuffer (fst (consume (\<lambda>b. None) [''vc'']
       \<lparr>pointbuffer = [Point_zero\<lparr>Value := 1\<rparr>, Point_zero], bufferindex = 1,
        memstats_Sys = 0, effects = []\<rparr>
       [Metrics_recv (Point_zero\<lparr>Value := 2\<rparr>), Ticker_C])) ! 1 = Point_zero
   \<and> dispatches (effects (fst (consume (\<lambda>b. None) [''vc'']
       \<lparr>pointbuffer = [Point_zero\<lparr>Value := 1\<rparr>, Point_zero], bufferindex = 1,
        memstats_Sys = 0, effects = []\<rparr>
       [Metrics_recv (Point_zero\<lparr>Value := 2\<rparr>), Ticker_C])))
       = [[Point_zero\<lparr>Value := 1\<rparr>, Point_zero\<lparr>Value := 2\<rparr>]]"
  using slots_zero_after_full_flush [of
      "\<lparr>pointbuffer = [Point_zero\<lparr>Value := 1\<rparr>, Point_zero], bufferindex = 1,
        memstats_Sys = 0, effects = []\<rparr>"
      "[Ticker_C]" "\<lambda>b. None" "[''vc'']" "Point_zero\<lparr>Value := 2\<rparr>"]
  by simp

text \<open>
  Claim C2. Starting with the cursor at 0, after receives without a signal that hold
  \<open>k\<close> Points, \<open>k\<close> below the capacity, a signal makes exactly one call of
  \<^verbatim>\<open>SendMetrics\<close> with these \<open>k\<close> Points in the order of arrival, or none when
  \<open>k = 0\<close>, and \<^verbatim>\<open>Manage\<close> returns: whatever would be received after the signal
  has no effect.
\<close>

theorem partial_flush_on_shutdown:
  assumes "\<forall>ev \<in> set evs. \<not> is_signal ev"
    and "bufferindex s = 0"
    and "length (points_of evs) < length (pointbuffer s)"
  shows "snd (consume send vcs s (evs @ Interrupt_recv sg # rest))
           = Returned (exit_message sg) None
       \<and> dispatches (effects (fst (consume send vcs s (evs @ Interrupt_recv sg # rest))))
           = dispatches (effects s) @ (if points_of evs = [] then [] else [points_of evs])
       \<and> consume send vcs s (evs @ Interrupt_recv sg # rest)
           = consume send vcs s (evs @ [Interrupt_recv sg])"
proof -
  let ?s1 = "fst (consume send vcs s evs)"
  have below: "bufferindex s + length (points_of evs) < length (pointbuffer s)"
    using assms(2,3) by simp
  note st = consume_no_signal_state [OF assms(1) below, of send vcs]
  have split: "consume send vcs s (evs @ evs') = consume send vcs ?s1 evs'" for evs'
    using consume_append [OF st(1)] .
  have cur: "bufferindex ?s1 = length (points_of evs)"
    using st(2) assms(2) by simp
  have le: "bufferindex ?s1 \<le> length (pointbuffer ?s1)"
    using st(2,3) below by simp
  have batch: "take (bufferindex ?s1) (pointbuffer ?s1) = points_of evs"
    using st(3) cur assms(2) by simp
  have sig: "select_case send vcs ?s1 (Interrupt_recv sg) =
     (?s1\<lparr>effects := effects ?s1 @ Stdlog (Got_signal sg) #
          (if 0 < bufferindex ?s1
           then [Call_SendMetrics (take (bufferindex ?s1) (pointbuffer ?s1))
                   (send (take (bufferindex ?s1) (pointbuffer ?s1))),
                 Stdlog (Sent_logs (bufferindex ?s1))]
           else [])\<rparr>,
      if sg = os_Interrupt then Returned ''Daemon was interrupted by system signal'' None
      else Returned ''Daemon was killed'' None)"
    by (rule select_signal [OF le])
  have out: "snd (select_case send vcs ?s1 (Interrupt_recv sg)) = Returned (exit_message sg) None"
    unfolding sig by (simp add: exit_message_def)
  have stop: "consume send vcs ?s1 (Interrupt_recv sg # evs')
                = select_case send vcs ?s1 (Interrupt_recv sg)" for evs'
    using out by (simp add: Let_def del: select_case.simps)
  have disp: "dispatches (effects (fst (select_case send vcs ?s1 (Interrupt_recv sg))))
           = dispatches (effects s) @ (if points_of evs = [] then [] else [points_of evs])"
    unfolding sig using st(4) cur batch by (simp add: dispatches_append)
  show ?thesis
    unfolding split stop using out disp by simp
qed

theorem partial_flush_on_shutdown_witness:
  "snd (consume (\<lambda>b. None) [''vc''] (initial_state 3 [])
         ([Metrics_recv (Point_zero\<lparr>Value := 1\<rparr>), Ticker_C] @
          Interrupt_recv syscall_SIGTERM # [Metrics_recv (Point_zero\<lparr>Value := 2\<rparr>)]))
     = Returned ''Daemon was killed'' None
   \<and> dispatches (effects (fst (consume (\<lambda>b. None) [''vc''] (initial_state 3 [])
         ([Metrics_recv (Point_zero\<lparr>Value := 1\<rparr>), Ticker_C] @
          Interrupt_recv syscall_SIGTERM # [Metrics_recv (Point_zero\<lparr>Value := 2\<rparr>)]))))
     = [[Point_zero\<lparr>Value := 1\<rparr>]]"
  using partial_flush_on_shutdown [of
      "[Metrics_recv (Point_zero\<lparr>Value := 1\<rparr>), Ticker_C]"
      "initial_state 3 []" "\<lambda>b. None" "[''vc'']" syscall_SIGTERM
      "[Metrics_recv (Point_zero\<lparr>Value := 2\<rparr>)]"]
  by (simp add: initial_state_def exit_message_def)

lemma select_case_spec:
  assumes "bufferindex s < length (pointbuffer s)"
  shows "bufferindex (fst (select_case send vcs s ev)) = spec_cursor s ev"
    and "dispatches (effects (fst (select_case send vcs s ev)))
           = dispatches (effects s) @ spec_flush s ev"
    and "spec_cursor s ev < length (pointbuffer s)"
proof -
  show "bufferindex (fst (select_case send vcs s ev)) = spec_cursor s ev"
    using assms by (cases ev) (simp_all add: Let_def spec_cursor_def)
  show "dispatches (effects (fst (select_case send vcs s ev)))
           = dispatches (effects s) @ spec_flush s ev"
    using assms
    by (cases ev)
       (simp_all add: Let_def spec_flush_def dispatches_append dispatches_queries)
  show "spec_cursor s ev < length (pointbuffer s)"
    using assms by (cases ev) (auto simp add: spec_cursor_def)
qed

text \<open>
  Claim C3. In every state that the loop reaches from its start with a buffer of \<open>n\<close>
  slots, the buffer still has \<open>n\<close> slots, the cursor is below \<open>n\<close> (so within
  \<open>[0, n]\<close>) and no index was out of range. For every next receive the iteration does
  what the invariant of the specification says: a Point that makes the cursor reach
  \<open>n\<close> flushes the whole buffer and puts the cursor to 0, any other Point moves the
  cursor up by one without a flush, a signal flushes the slots below the cursor when there
  are any, and a tick of a timer neither flushes nor moves the cursor.
\<close>

theorem cursor_invariant:
  assumes "0 < n"
    and "s = fst (consume send vcs (initial_state n effs) evs)"
  shows "length (pointbuffer s) = n \<and> bufferindex s < n \<and> bufferindex s \<le> n
       \<and> snd (consume send vcs (initial_state n effs) evs) \<noteq> Panicked
       \<and> (\<forall>ev. snd (select_case send vcs s ev) \<noteq> Panicked
              \<and> bufferindex (fst (select_case send vcs s ev)) = spec_cursor s ev
              \<and> spec_cursor s ev \<le> n
              \<and> dispatches (effects (fst (select_case send vcs s ev)))
                  = dispatches (effects s) @ spec_flush s ev)
       \<and> (\<forall>p. (bufferindex (fst (select_case send vcs s (Metrics_recv p))) = 0)
                = (bufferindex s + 1 = n))"
proof -
  have start: "bufferindex (initial_state n effs) < length (pointbuffer (initial_state n effs))"
    using assms(1) by (simp add: initial_state_def)
  have len0: "length (pointbuffer (initial_state n effs)) = n"
    by (simp add: initial_state_def)
  note inv = consume_inv [OF start, of send vcs evs]
  have len: "length (pointbuffer s) = n"
    using inv len0 assms(2) by simp
  have cur: "bufferindex s < n"
    using inv len0 assms(2) by simp
  have np: "snd (consume send vcs (initial_state n effs) evs) \<noteq> Panicked"
    using inv by simp
  have here: "bufferindex s < length (pointbuffer s)"
    using len cur by simp
  have step: "snd (select_case send vcs s ev) \<noteq> Panicked
              \<and> bufferindex (fst (select_case send vcs s ev)) = spec_cursor s ev
              \<and> spec_cursor s ev \<le> n
              \<and> dispatches (effects (fst (select_case send vcs s ev)))
                  = dispatches (effects s) @ spec_flush s ev" for ev
    using select_case_inv(3) [OF here, of send vcs ev]
      select_case_spec(1,2) [OF here, of send vcs ev]
      select_case_spec(3) [OF here, of ev] len
    by simp
  have reset: "(bufferindex (fst (select_case send vcs s (Metrics_recv p))) = 0)
                = (bufferindex s + 1 = n)" for p
    using select_case_spec(1) [OF here, of send vcs "Metrics_recv p"] len
    by (simp add: spec_cursor_def)
  show ?thesis
    using len cur np step reset by simp
qed

theorem cursor_invariant_witness:
  "bufferindex (fst (consume (\<lambda>b. None) [''vc''] (initial_state 2 [])
       [Metrics_recv (Point_zero\<lparr>Value := 1\<rparr>), Metrics_recv (Point_zero\<lparr>Value := 2\<rparr>),
        Metrics_recv (Point_zero\<lparr>Value := 3\<rparr>)])) < 2
   \<and> dispatches (effects (fst (select_case (\<lambda>b. None) [''vc'']
        (fst (consume (\<lambda>b. None) [''vc''] (initial_state 2 [])
          [Metrics_recv (Point_zero\<lparr>Value := 1\<rparr>), Metrics_recv (Point_zero\<lparr>Value := 2\<rparr>),
           Metrics_recv (Point_zero\<lparr>Value := 3\<rparr>)]))
        (Metrics_recv (Point_zero\<lparr>Value := 4\<rparr>)))))
     = [[Point_zero\<lparr>Value := 1\<rparr>, Point_zero\<lparr>Value := 2\<rparr>],
        [Point_zero\<lparr>Value := 3\<rparr>, Point_zero\<lparr>Value := 4\<rparr>]]"
  using cursor_invariant [of 2
      "fst (consume (\<lambda>b. None) [''vc''] (initial_state 2 [])
          [Metrics_recv (Point_zero\<lparr>Value := 1\<rparr>), Metrics_recv (Point_zero\<lparr>Value := 2\<rparr>),
           Metrics_recv (Point_zero\<lparr>Value := 3\<rparr>)])"
      "\<lambda>b. None" "[''vc'']" "[]"
      "[Metrics_recv (Point_zero\<lparr>Value := 1\<rparr>), Metrics_recv (Point_zero\<lparr>Value := 2\<rparr>),
        Metrics_recv (Point_zero\<lparr>Value := 3\<rparr>)]"]
  by (simp add: initial_state_def reset_slots_all eval_nat_numeral)

text \<open>
  Claim C8. The case of a signal returns
  \<^verbatim>\<open>"Daemon was interrupted by system signal"\<close> for \<^verbatim>\<open>os.Interrupt\<close> and
  \<^verbatim>\<open>"Daemon was killed"\<close> for every other signal, two different messages, each with a
  nil error. Apart from the message, the signal appears only in the line
  \<^verbatim>\<open>"Got signal:"\<close> of the log: the buffer, the cursor and the flush are the same for
  every signal.
\<close>

theorem shutdown_messages:
  assumes "bufferindex s \<le> length (pointbuffer s)"
  shows "snd (select_case send vcs s (Interrupt_recv sg)) = Returned (exit_message sg) None
       \<and> exit_message os_Interrupt = ''Daemon was interrupted by system signal''
       \<and> (sg \<noteq> os_Interrupt \<longrightarrow>
            exit_message sg = ''Daemon was killed''
            \<and> exit_message sg \<noteq> exit_message os_Interrupt)
       \<and> fst (select_case send vcs s (Interrupt_recv sg)) =
           s\<lparr>effects := effects s @ Stdlog (Got_signal sg) #
               (if 0 < bufferindex s
                then [Call_SendMetrics (take (bufferindex s) (pointbuffer s))
                        (send (take (bufferindex s) (pointbuffer s))),
                      Stdlog (Sent_logs (bufferindex s))]
                else [])\<rparr>"
  unfolding select_signal [OF assms] by (simp add: exit_message_def)

theorem shutdown_messages_witness:
  "snd (select_case (\<lambda>b. None) [''vc''] (initial_state 2 []) (Interrupt_recv os_Interrupt))
     = Returned ''Daemon was interrupted by system signal'' None
   \<and> snd (select_case (\<lambda>b. None) [''vc''] (initial_state 2 []) (Interrupt_recv os_Kill))
     = Returned ''Daemon was killed'' None
   \<and> snd (select_case (\<lambda>b. None) [''vc''] (initial_state 2 []) (Interrupt_recv syscall_SIGTERM))
     = Returned ''Daemon was killed'' None"
  using shutdown_messages [of "initial_state 2 []" "\<lambda>b. None" "[''vc'']" os_Interrupt]
    shutdown_messages [of "initial_state 2 []" "\<lambda>b. None" "[''vc'']" os_Kill]
    shutdown_messages [of "initial_state 2 []" "\<lambda>b. None" "[''vc'']" syscall_SIGTERM]
  by (simp add: initial_state_def exit_message_def)








subsection \<open>Start-up, signals and the exit status\<close>

lemma select_case_init_effect:
  "Call_Backend_Init r \<in> set (effects (fst (select_case send vcs s ev))) \<Longrightarrow>
   Call_Backend_Init r \<in> set (effects s)"
  by (cases ev) (auto simp add: Let_def split: if_splits)

lemma consume_init_effect:
  "Call_Backend_Init r \<in> set (effects (fst (consume send vcs s evs))) \<Longrightarrow>
   Call_Backend_Init r \<in> set (effects s)"
proof (induction evs arbitrary: s)
  case Nil
  then show ?case by simp
next
  case (Cons ev evs)
  show ?case
  proof (cases "snd (select_case send vcs s ev) = Continue")
    case True
    with Cons.prems
    have "Call_Backend_Init r \<in> set (effects (fst (consume send vcs (fst (select_case send vcs s ev)) evs)))"
      by (simp add: Let_def del: select_case.simps)
    then have "Call_Backend_Init r \<in> set (effects (fst (select_case send vcs s ev)))"
      by (rule Cons.IH)
    then show ?thesis by (rule select_case_init_effect)
  next
    case False
    with Cons.prems
    have "Call_Backend_Init r \<in> set (effects (fst (select_case send vcs s ev)))"
      by (simp add: Let_def del: select_case.simps)
    then show ?thesis by (rule select_case_init_effect)
  qed
qed

lemma pipeline_init_effect:
  assumes "Call_Backend_Init r \<in> set (fst (pipeline w config effs0))"
  shows "Call_Backend_Init r \<in> set effs0"
proof (cases "FlushSize config < 0 \<or> ticker_duration (Interval config) \<le> 0")
  case True
  with assms show ?thesis
    by (auto simp add: pipeline_def Let_def deferred_backend_def deferred_profile_def
          split: if_splits)
next
  case False
  let ?effs3 = "effs0 @ [Signal_Notify [os_Interrupt, os_Kill, syscall_SIGTERM]] @
                [Make_metrics_chan (nat (FlushSize config))] @
                [NewTicker_ticker (ticker_duration (Interval config)),
                 NewTicker_memtimer (ticker_duration (Interval config)),
                 Stdlog Retrieving_metrics] @
                map Go_queryVCenter (VCenters config)"
  let ?r = "consume (Backend_SendMetrics w) (VCenters config)
              (initial_state (nat (FlushSize config)) ?effs3) (receives w)"
  have "Call_Backend_Init r \<in> set (effects (fst ?r))"
    using assms False
    by (auto simp add: pipeline_def Let_def deferred_all_def deferred_backend_def
          deferred_profile_def split: if_splits)
  then have "Call_Backend_Init r \<in> set (effects (initial_state (nat (FlushSize config)) ?effs3))"
    by (rule consume_init_effect)
  then show ?thesis
    by (auto simp add: initial_state_def)
qed

lemma profiling_effects:
  "x \<in> set (fst (profiling w config)) \<Longrightarrow>
   (\<exists>f. x = Stdlog (Will_write_cpu_profiling f)) \<or> (\<exists>r. x = Call_StartCPUProfile r)
   \<or> (\<exists>e. x = Log_Fatal e)"
  by (auto simp add: profiling_def split: if_splits sum.splits option.splits)

lemma profiling_receives: "profiling (w\<lparr>receives := evs\<rparr>) config = profiling w config"
  by (simp add: profiling_def split: sum.splits)

lemma dispatches_startup:
  "dispatches (map VCenter_Init vcs) = []"
  "dispatches (fst (profiling w config)) = []"
  "dispatches (deferred_profile config) = []"
proof -
  show "dispatches (map VCenter_Init vcs) = []" by (induction vcs) simp_all
  show "dispatches (fst (profiling w config)) = []"
    by (simp add: profiling_def split: sum.splits option.splits)
  show "dispatches (deferred_profile config) = []"
    by (simp add: deferred_profile_def)
qed

lemma Manage_after_startup:
  assumes "\<not> 1 < length (os_Args w)" and "os_Args w \<noteq> []" and "os_Open w = None"
    and "Decode w = Inr config0" and "snd (profiling w (default_flush_size config0)) = None"
  shows "Manage w =
     (case Backend_Init w of
        Some err \<Rightarrow>
          (Stdlog (Starting_daemon (os_Args w ! 0)) # fst (profiling w (default_flush_size config0)) @
             map VCenter_Init (VCenters (default_flush_size config0)) @
             Call_Backend_Init (Some err) # deferred_profile (default_flush_size config0),
           Returned ''Could not initialize backend'' (Some err))
      | None \<Rightarrow>
          pipeline w (default_flush_size config0)
            (Stdlog (Starting_daemon (os_Args w ! 0)) # fst (profiling w (default_flush_size config0)) @
             map VCenter_Init (VCenters (default_flush_size config0)) @ [Call_Backend_Init None]))"
  using assms by (simp add: Manage_def Let_def default_flush_size_def split: option.splits)

lemma Manage_reaches_init:
  assumes "Call_Backend_Init r \<in> set (fst (Manage w))"
  shows "\<exists>config0. \<not> 1 < length (os_Args w) \<and> os_Args w \<noteq> [] \<and> os_Open w = None
           \<and> Decode w = Inr config0 \<and> snd (profiling w (default_flush_size config0)) = None
           \<and> Backend_Init w = r"
proof -
  have a1: "\<not> 1 < length (os_Args w)"
    using assms by (auto simp add: Manage_def)
  have a2: "os_Args w \<noteq> []"
    using assms a1 by (auto simp add: Manage_def)
  have a3: "os_Open w = None"
  proof (cases "os_Open w")
    case (Some e)
    with assms a1 a2 show ?thesis by (simp add: Manage_def)
  qed simp
  obtain config0 where a4: "Decode w = Inr config0"
  proof (cases "Decode w")
    case (Inl e)
    with assms a1 a2 a3 show ?thesis by (simp add: Manage_def)
  qed simp
  have a5: "snd (profiling w (default_flush_size config0)) = None"
  proof (cases "snd (profiling w (default_flush_size config0))")
    case (Some out)
    with assms a1 a2 a3 a4
    have "Call_Backend_Init r \<in> set (fst (profiling w (default_flush_size config0)))"
      by (simp add: Manage_def Let_def default_flush_size_def)
    then show ?thesis by (auto dest: profiling_effects)
  qed simp
  note M = Manage_after_startup [OF a1 a2 a3 a4 a5]
  have a6: "Backend_Init w = r"
  proof (cases "Backend_Init w")
    case None
    with assms M
    have "Call_Backend_Init r \<in> set (Stdlog (Starting_daemon (os_Args w ! 0)) #
             fst (profiling w (default_flush_size config0)) @
             map VCenter_Init (VCenters (default_flush_size config0)) @ [Call_Backend_Init None])"
      by (auto dest: pipeline_init_effect)
    with None show ?thesis by (auto dest: profiling_effects)
  next
    case (Some e)
    with assms M show ?thesis
      by (auto simp add: deferred_profile_def dest: profiling_effects split: if_splits)
  qed
  show ?thesis
    using a1 a2 a3 a4 a5 a6 by blast
qed

lemma main_effects_of_Manage:
  assumes "x \<in> set (fst (main w))"
    and "\<forall>e. x \<noteq> Errlog_Error e" and "\<forall>m e. x \<noteq> Errlog_status m e" and "\<forall>m. x \<noteq> Stdout m"
  shows "daemon_New w = None \<and> x \<in> set (fst (Manage w))"
  using assms by (auto simp add: main_def split: option.splits outcome.splits)

text \<open>
  Claim C7. When \<^verbatim>\<open>config.Backend.Init\<close> was called and returned an error,
  \<^verbatim>\<open>Manage\<close> returns \<^verbatim>\<open>"Could not initialize backend"\<close> with that error: no query
  goroutine was started, no ticker was created, nothing was sent, and no receive of the
  loop has any influence on the result. \<^verbatim>\<open>main\<close> then writes the message and the error
  to \<^verbatim>\<open>errlog\<close> and the process ends with status 1.
\<close>

theorem backend_init_failure_is_fatal:
  assumes "Call_Backend_Init (Some err) \<in> set (fst (main w))"
  shows "snd (Manage w) = Returned ''Could not initialize backend'' (Some err)
       \<and> (\<forall>v. Go_queryVCenter v \<notin> set (fst (Manage w)))
       \<and> (\<forall>d. NewTicker_ticker d \<notin> set (fst (Manage w))
              \<and> NewTicker_memtimer d \<notin> set (fst (Manage w)))
       \<and> dispatches (fst (Manage w)) = []
       \<and> (\<forall>evs. Manage (w\<lparr>receives := evs\<rparr>) = Manage w)
       \<and> main w = (fst (Manage w) @ [Errlog_status ''Could not initialize backend'' err],
                   Some 1)"
proof -
  have dn: "daemon_New w = None" and inM: "Call_Backend_Init (Some err) \<in> set (fst (Manage w))"
    using main_effects_of_Manage [OF assms] by simp_all
  from Manage_reaches_init [OF inM] obtain config0 where
    c: "\<not> 1 < length (os_Args w)" "os_Args w \<noteq> []" "os_Open w = None"
       "Decode w = Inr config0" "snd (profiling w (default_flush_size config0)) = None"
    and init: "Backend_Init w = Some err"
    by blast
  have M: "Manage w =
          (Stdlog (Starting_daemon (os_Args w ! 0)) # fst (profiling w (default_flush_size config0)) @
             map VCenter_Init (VCenters (default_flush_size config0)) @
             Call_Backend_Init (Some err) # deferred_profile (default_flush_size config0),
           Returned ''Could not initialize backend'' (Some err))"
    using Manage_after_startup [OF c] init by simp
  have M': "Manage (w\<lparr>receives := evs\<rparr>) = Manage w" for evs
  proof -
    have "Manage (w\<lparr>receives := evs\<rparr>) =
          (Stdlog (Starting_daemon (os_Args w ! 0)) # fst (profiling w (default_flush_size config0)) @
             map VCenter_Init (VCenters (default_flush_size config0)) @
             Call_Backend_Init (Some err) # deferred_profile (default_flush_size config0),
           Returned ''Could not initialize backend'' (Some err))"
      using Manage_after_startup [of "w\<lparr>receives := evs\<rparr>" config0] c init
      by (simp add: profiling_receives)
    with M show ?thesis by simp
  qed
  have out: "snd (Manage w) = Returned ''Could not initialize backend'' (Some err)"
    by (simp add: M)
  have noq: "Go_queryVCenter v \<notin> set (fst (Manage w))" for v
    unfolding M by (auto simp add: deferred_profile_def dest: profiling_effects)
  have not1: "NewTicker_ticker d \<notin> set (fst (Manage w))" for d
    unfolding M by (auto simp add: deferred_profile_def dest: profiling_effects)
  have not2: "NewTicker_memtimer d \<notin> set (fst (Manage w))" for d
    unfolding M by (auto simp add: deferred_profile_def dest: profiling_effects)
  have nod: "dispatches (fst (Manage w)) = []"
    unfolding M by (simp add: dispatches_append dispatches_startup)
  have mn: "main w = (fst (Manage w) @ [Errlog_status ''Could not initialize backend'' err],
                   Some 1)"
    using dn out by (simp add: main_def)
  show ?thesis
    using out noq not1 not2 nod M' mn by blast
qed

theorem backend_init_failure_is_fatal_witness:
  "main \<lparr>os_Args = [''vsphere-graphite''], daemon_New = None,
         service_Install = ([], None), service_Remove = ([], None),
         service_Start = ([], None), service_Stop = ([], None),
         service_Status = ([], None), os_Open = None,
         Decode = Inr \<lparr>VCenters = [''vc''], Interval = 60, FlushSize = 0, Profiling = False\<rparr>,
         TempFile = Inr ''/tmp/profile'', pprof_StartCPUProfile = None,
         Backend_Init = Some (Error ''no route to host''),
         Backend_SendMetrics = (\<lambda>b. None), receives = [Ticker_C]\<rparr>
   = ([Stdlog (Starting_daemon ''vsphere-graphite''), VCenter_Init ''vc'',
       Call_Backend_Init (Some (Error ''no route to host'')),
       Errlog_status ''Could not initialize backend'' (Error ''no route to host'')], Some 1)"
  using backend_init_failure_is_fatal [of "Error ''no route to host''"
      "\<lparr>os_Args = [''vsphere-graphite''], daemon_New = None,
         service_Install = ([], None), service_Remove = ([], None),
         service_Start = ([], None), service_Stop = ([], None),
         service_Status = ([], None), os_Open = None,
         Decode = Inr \<lparr>VCenters = [''vc''], Interval = 60, FlushSize = 0, Profiling = False\<rparr>,
         TempFile = Inr ''/tmp/profile'', pprof_StartCPUProfile = None,
         Backend_Init = Some (Error ''no route to host''),
         Backend_SendMetrics = (\<lambda>b. None), receives = [Ticker_C]\<rparr>"]
  by (simp add: main_def Manage_def profiling_def deferred_profile_def default_flush_size_def)

lemma select_case_signal_effect:
  assumes "bufferindex s < length (pointbuffer s)"
    and "Stdlog (Got_signal sg) \<notin> set (effects s)"
    and "Stdlog (Got_signal sg) \<in> set (effects (fst (select_case send vcs s ev)))"
  shows "ev = Interrupt_recv sg"
  using assms by (cases ev) (auto simp add: Let_def split: if_splits)

lemma consume_signal_effect:
  assumes "bufferindex s < length (pointbuffer s)"
    and "Stdlog (Got_signal sg) \<notin> set (effects s)"
    and "Stdlog (Got_signal sg) \<in> set (effects (fst (consume send vcs s evs)))"
  shows "snd (consume send vcs s evs) = Returned (exit_message sg) None"
  using assms
proof (induction evs arbitrary: s)
  case Nil
  then show ?case by simp
next
  case (Cons ev evs)
  let ?s1 = "fst (select_case send vcs s ev)"
  have inv1: "bufferindex ?s1 < length (pointbuffer ?s1)"
    using select_case_inv(1,2) [OF Cons.prems(1), of send vcs ev] by simp
  show ?case
  proof (cases "Stdlog (Got_signal sg) \<in> set (effects ?s1)")
    case True
    have ev: "ev = Interrupt_recv sg"
      by (rule select_case_signal_effect [OF Cons.prems(1,2) True])
    have le: "bufferindex s \<le> length (pointbuffer s)"
      using Cons.prems(1) by simp
    have "snd (select_case send vcs s (Interrupt_recv sg)) = Returned (exit_message sg) None"
      unfolding select_signal [OF le] by (simp add: exit_message_def)
    then show ?thesis
      unfolding ev by (simp add: Let_def del: select_case.simps)
  next
    case False
    have cont: "snd (select_case send vcs s ev) = Continue"
    proof (rule ccontr)
      assume "snd (select_case send vcs s ev) \<noteq> Continue"
      then have "consume send vcs s (ev # evs) = select_case send vcs s ev"
        by (simp add: Let_def del: select_case.simps)
      with Cons.prems(3) False show False by simp
    qed
    then have eq: "consume send vcs s (ev # evs) = consume send vcs ?s1 evs"
      by (simp add: Let_def del: select_case.simps)
    show ?thesis
      unfolding eq using Cons.IH [OF inv1 False] Cons.prems(3) eq by simp
  qed
qed

lemma pipeline_signal_effect:
  assumes "FlushSize config \<noteq> 0"
    and "Stdlog (Got_signal sg) \<notin> set effs0"
    and "Stdlog (Got_signal sg) \<in> set (fst (pipeline w config effs0))"
  shows "snd (pipeline w config effs0) = Returned (exit_message sg) None"
proof (cases "FlushSize config < 0 \<or> ticker_duration (Interval config) \<le> 0")
  case True
  with assms(2,3) show ?thesis
    by (auto simp add: pipeline_def Let_def deferred_backend_def deferred_profile_def
          split: if_splits)
next
  case False
  let ?effs3 = "effs0 @ [Signal_Notify [os_Interrupt, os_Kill, syscall_SIGTERM]] @
                [Make_metrics_chan (nat (FlushSize config))] @
                [NewTicker_ticker (ticker_duration (Interval config)),
                 NewTicker_memtimer (ticker_duration (Interval config)),
                 Stdlog Retrieving_metrics] @
                map Go_queryVCenter (VCenters config)"
  let ?s0 = "initial_state (nat (FlushSize config)) ?effs3"
  let ?r = "consume (Backend_SendMetrics w) (VCenters config) ?s0 (receives w)"
  have P: "pipeline w config effs0 =
      (if snd ?r = Blocked then (effects (fst ?r), Blocked)
       else (effects (fst ?r) @ deferred_all config, snd ?r))"
    using False by (simp add: pipeline_def Let_def)
  have inv0: "bufferindex ?s0 < length (pointbuffer ?s0)"
    using False assms(1) by (simp add: initial_state_def)
  have fresh: "Stdlog (Got_signal sg) \<notin> set (effects ?s0)"
    using assms(2) by (auto simp add: initial_state_def)
  have "Stdlog (Got_signal sg) \<in> set (effects (fst ?r))"
    using assms(3) unfolding P
    by (auto simp add: deferred_all_def deferred_backend_def deferred_profile_def
          split: if_splits)
  from consume_signal_effect [OF inv0 fresh this]
  have "snd ?r = Returned (exit_message sg) None" .
  then show ?thesis
    unfolding P by simp
qed

lemma Manage_signal_effect:
  assumes "Stdlog (Got_signal sg) \<in> set (fst (Manage w))"
  shows "snd (Manage w) = Returned (exit_message sg) None"
proof -
  have a1: "\<not> 1 < length (os_Args w)"
    using assms by (auto simp add: Manage_def)
  have a2: "os_Args w \<noteq> []"
    using assms a1 by (auto simp add: Manage_def)
  have a3: "os_Open w = None"
  proof (cases "os_Open w")
    case (Some e)
    with assms a1 a2 show ?thesis by (simp add: Manage_def)
  qed simp
  obtain config0 where a4: "Decode w = Inr config0"
  proof (cases "Decode w")
    case (Inl e)
    with assms a1 a2 a3 show ?thesis by (simp add: Manage_def)
  qed simp
  have a5: "snd (profiling w (default_flush_size config0)) = None"
  proof (cases "snd (profiling w (default_flush_size config0))")
    case (Some out)
    with assms a1 a2 a3 a4
    have "Stdlog (Got_signal sg) \<in> set (fst (profiling w (default_flush_size config0)))"
      by (simp add: Manage_def Let_def)
    then show ?thesis by (auto dest: profiling_effects)
  qed simp
  note M = Manage_after_startup [OF a1 a2 a3 a4 a5]
  let ?effs = "Stdlog (Starting_daemon (os_Args w ! 0)) #
             fst (profiling w (default_flush_size config0)) @
             map VCenter_Init (VCenters (default_flush_size config0)) @ [Call_Backend_Init None]"
  have fresh: "Stdlog (Got_signal sg) \<notin> set ?effs"
    by (auto dest: profiling_effects)
  have nz: "FlushSize (default_flush_size config0) \<noteq> 0"
    by (simp add: default_flush_size_def)
  show ?thesis
  proof (cases "Backend_Init w")
    case None
    with assms M have "Stdlog (Got_signal sg) \<in>
        set (fst (pipeline w (default_flush_size config0) ?effs))"
      by simp
    from pipeline_signal_effect [OF nz fresh this] None M show ?thesis by simp
  next
    case (Some e)
    with assms M show ?thesis
      by (auto simp add: deferred_profile_def dest: profiling_effects split: if_splits)
  qed
qed

text \<open>
  Claim C10. When the loop has received a signal, whichever of the three it is,
  \<^verbatim>\<open>Manage\<close> returns the message for that signal with a nil error, and \<^verbatim>\<open>main\<close>
  prints the message to the standard output as its last action and returns: the exit
  status is 0.
\<close>

theorem signal_exit_status_zero:
  assumes "Stdlog (Got_signal sg) \<in> set (fst (main w))"
  shows "snd (Manage w) = Returned (exit_message sg) None
       \<and> main w = (fst (Manage w) @ [Stdout (exit_message sg)], Some 0)
       \<and> snd (main w) = Some 0"
proof -
  have dn: "daemon_New w = None" and inM: "Stdlog (Got_signal sg) \<in> set (fst (Manage w))"
    using main_effects_of_Manage [OF assms] by simp_all
  have out: "snd (Manage w) = Returned (exit_message sg) None"
    by (rule Manage_signal_effect [OF inM])
  have mn: "main w = (fst (Manage w) @ [Stdout (exit_message sg)], Some 0)"
    using dn out by (simp add: main_def)
  show ?thesis
    using out mn by simp
qed

theorem signal_exit_status_zero_witness:
  "main \<lparr>os_Args = [''vsphere-graphite''], daemon_New = None,
         service_Install = ([], None), service_Remove = ([], None),
         service_Start = ([], None), service_Stop = ([], None),
         service_Status = ([], None), os_Open = None,
         Decode = Inr \<lparr>VCenters = [''vc''], Interval = 60, FlushSize = 2, Profiling = False\<rparr>,
         TempFile = Inr ''/tmp/profile'', pprof_StartCPUProfile = None,
         Backend_Init = None,
         Backend_SendMetrics = (\<lambda>b. None),
         receives = [Metrics_recv (Point_zero\<lparr>Value := 1\<rparr>), Interrupt_recv syscall_SIGTERM]\<rparr>
   = ([Stdlog (Starting_daemon ''vsphere-graphite''), VCenter_Init ''vc'',
       Call_Backend_Init None,
       Signal_Notify [os_Interrupt, os_Kill, syscall_SIGTERM],
       Make_metrics_chan 2,
       NewTicker_ticker 60000000000, NewTicker_memtimer 60000000000,
       Stdlog Retrieving_metrics, Go_queryVCenter ''vc'',
       Stdlog (Got_signal syscall_SIGTERM),
       Call_SendMetrics [Point_zero\<lparr>Value := 1\<rparr>] None, Stdlog (Sent_logs 1),
       Memtimer_Stop, Ticker_Stop, Backend_Disconnect,
       Stdout ''Daemon was killed''], Some 0)"
  using signal_exit_status_zero [of syscall_SIGTERM
      "\<lparr>os_Args = [''vsphere-graphite''], daemon_New = None,
         service_Install = ([], None), service_Remove = ([], None),
         service_Start = ([], None), service_Stop = ([], None),
         service_Status = ([], None), os_Open = None,
         Decode = Inr \<lparr>VCenters = [''vc''], Interval = 60, FlushSize = 2, Profiling = False\<rparr>,
         TempFile = Inr ''/tmp/profile'', pprof_StartCPUProfile = None,
         Backend_Init = None,
         Backend_SendMetrics = (\<lambda>b. None),
         receives = [Metrics_recv (Point_zero\<lparr>Value := 1\<rparr>), Interrupt_recv syscall_SIGTERM]\<rparr>"]
  by (simp add: main_def Manage_def profiling_def deferred_profile_def deferred_backend_def
        deferred_all_def default_flush_size_def pipeline_def ticker_duration_def
        initial_state_def exit_message_def eval_nat_numeral)

end
